theory Spec2Isabelle
  imports Main "HOL-Library.Word" "HOL-Library.Sublist"
begin

section \<open>Shared vocabulary\<close>

text \<open>
  A Go \<^verbatim>\<open>error\<close> is a value: \<open>None\<close> is \<^verbatim>\<open>nil\<close>, \<open>Some msg\<close> is an error with
  its message. Go's \<^verbatim>\<open>int\<close> is modelled by \<open>int\<close>: no operation below comes near the
  64-bit range. A run-time panic (an index out of range) is a value of \<open>panic\<close>.
\<close>

type_synonym error = "string option"

datatype panic = IndexOutOfRange

text \<open>
  Modelled from the spec: \<^verbatim>\<open>Option[T]\<close> (option.go is not among the sources), the
  (display-key, value, pre-selected-flag) triple of the data model. \<^verbatim>\<open>String()\<close> is the
  display key.
\<close>

record 'v Option =
  Key :: string
  Value :: 'v
  selected :: bool

definition String :: "'v Option \<Rightarrow> string" where
  "String opt = Key opt"

text \<open>
  Modelled from the spec: \<^verbatim>\<open>clamp\<close> (not among the sources), which keeps a value
  within a range.
\<close>

definition clamp :: "int \<Rightarrow> int \<Rightarrow> int \<Rightarrow> int" where
  "clamp n low high = min high (max low n)"

text \<open>Go's integer division truncates towards zero.\<close>

definition go_div :: "int \<Rightarrow> int \<Rightarrow> int" where
  "go_div a b = sgn a * sgn b * (\<bar>a\<bar> div \<bar>b\<bar>)"

subsection \<open>Key bindings (bubbles/key)\<close>

text \<open>
  A binding is a list of key names and an enabled flag; \<^verbatim>\<open>key.Matches\<close> holds when
  the pressed key is one of the keys of an enabled binding among those given.
\<close>

record Binding =
  keys :: "string list"
  enabled :: bool

definition SetEnabled :: "bool \<Rightarrow> Binding \<Rightarrow> Binding" where
  "SetEnabled v b = b\<lparr>enabled := v\<rparr>"

definition Matches :: "string \<Rightarrow> Binding list \<Rightarrow> bool" where
  "Matches k bs = list_ex (\<lambda>b. enabled b \<and> k \<in> set (keys b)) bs"

definition noBinding :: Binding where
  "noBinding = \<lparr>keys = [], enabled = False\<rparr>"

text \<open>
  Modelled from the spec: the key-binding tables of the two fields (keymap.go is not
  among the sources), one binding for each key the \<^verbatim>\<open>Update\<close> functions match.
\<close>

record SelectKeyMap =
  Up :: Binding
  Down :: Binding
  Next :: Binding
  Prev :: Binding

record MultiSelectKeyMap =
  Up :: Binding
  Down :: Binding
  GotoTop :: Binding
  GotoBottom :: Binding
  HalfPageUp :: Binding
  HalfPageDown :: Binding
  Toggle :: Binding
  Filter :: Binding
  SetFilter :: Binding
  ClearFilter :: Binding
  Prev :: Binding
  Next :: Binding
  Submit :: Binding
  ToggleAll :: Binding

definition noKeyMap :: MultiSelectKeyMap where
  "noKeyMap = \<lparr>Up = noBinding, Down = noBinding, GotoTop = noBinding, GotoBottom = noBinding,
     HalfPageUp = noBinding, HalfPageDown = noBinding, Toggle = noBinding, Filter = noBinding,
     SetFilter = noBinding, ClearFilter = noBinding, Prev = noBinding, Next = noBinding,
     Submit = noBinding, ToggleAll = noBinding\<rparr>"

subsection \<open>Messages and commands (bubbletea)\<close>

text \<open>
  Modelled from the spec: the commands \<^verbatim>\<open>NextField\<close> and \<^verbatim>\<open>PrevField\<close> that the
  multi-select returns, the commands \<^verbatim>\<open>nextGroup\<close> and \<^verbatim>\<open>prevGroup\<close> that the group
  returns, and the messages that carry the results of deferred evaluations (all
  declared outside the sources). Advance and Retreat flow from a field to its group and
  from a group to the form: \<open>NextField\<close> and \<open>PrevField\<close> stand for the commands of the
  group's source (\<^verbatim>\<open>nextField\<close>, \<^verbatim>\<open>prevField\<close>) and their exported namesakes, whose
  results are the messages \<^verbatim>\<open>nextFieldMsg\<close> and \<^verbatim>\<open>prevFieldMsg\<close>; \<open>NextGroup\<close> and
  \<open>PrevGroup\<close> are the signals to the form.
\<close>

text \<open>
  A message is what \<^verbatim>\<open>Update\<close> receives; a command is deferred work whose result
  the runtime delivers later as a message. \<^verbatim>\<open>tea.Batch\<close> is a list of commands, a
  \<^verbatim>\<open>nil\<close> command is left out of it. The messages that carry the result of a
  deferred evaluation hold the id of the field, the value and the bindings hash they
  were computed for.
\<close>

datatype 'v msg =
    KeyMsg string
  | NextFieldMsg
  | PrevFieldMsg
  | UpdateFieldMsg
  | SpinnerTickMsg
  | UpdateTitleMsg int string "64 word"
  | UpdateDescriptionMsg int string "64 word"
  | UpdateOptionsMsg int "'v Option list" "64 word"
  | OtherMsg

datatype cmd =
    NextField
  | PrevField
  | NextGroup
  | PrevGroup
  | TitleCmd int "64 word"
  | DescriptionCmd int "64 word"
  | OptionsCmd int "64 word"
  | SpinnerTick
  | TextInputCmd

subsection \<open>The viewport (bubbles/viewport)\<close>

text \<open>
  The scrolling state of a viewport: its offset, its height and the lines of its
  content. The offset is always set through \<open>SetYOffset\<close>, which clamps it between 0
  and the largest offset that still fills the viewport.
\<close>

record Viewport =
  YOffset :: int
  Height :: int
  lines :: "string list"

definition maxYOffset :: "Viewport \<Rightarrow> int" where
  "maxYOffset v = max 0 (int (length (lines v)) - Height v)"

definition AtTop :: "Viewport \<Rightarrow> bool" where
  "AtTop v = (YOffset v \<le> 0)"

definition AtBottom :: "Viewport \<Rightarrow> bool" where
  "AtBottom v = (YOffset v \<ge> maxYOffset v)"

definition SetYOffset :: "int \<Rightarrow> Viewport \<Rightarrow> Viewport" where
  "SetYOffset n v = v\<lparr>YOffset := clamp n 0 (maxYOffset v)\<rparr>"

definition GotoTop :: "Viewport \<Rightarrow> Viewport" where
  "GotoTop v = (if AtTop v then v else SetYOffset 0 v)"

definition GotoBottom :: "Viewport \<Rightarrow> Viewport" where
  "GotoBottom v = SetYOffset (maxYOffset v) v"

definition LineDown :: "int \<Rightarrow> Viewport \<Rightarrow> Viewport" where
  "LineDown n v =
     (if AtBottom v \<or> n = 0 \<or> length (lines v) = 0 then v
      else SetYOffset (YOffset v + n) v)"

definition HalfViewUp :: "Viewport \<Rightarrow> Viewport" where
  "HalfViewUp v = (if AtTop v then v else SetYOffset (YOffset v - go_div (Height v) 2) v)"

definition HalfViewDown :: "Viewport \<Rightarrow> Viewport" where
  "HalfViewDown v = (if AtBottom v then v else SetYOffset (YOffset v + go_div (Height v) 2) v)"

definition SetContent :: "string list \<Rightarrow> Viewport \<Rightarrow> Viewport" where
  "SetContent ls v =
     (let v1 = v\<lparr>lines := ls\<rparr>
      in if YOffset v1 > int (length ls) - 1 then GotoBottom v1 else v1)"

definition newViewport :: Viewport where
  "newViewport = \<lparr>YOffset = 0, Height = 0, lines = []\<rparr>"

subsection \<open>The filter input (bubbles/textinput)\<close>

record TextInput =
  tvalue :: string
  tfocus :: bool

definition newTextInput :: TextInput where
  "newTextInput = \<lparr>tvalue = [], tfocus = False\<rparr>"

subsection \<open>Deferred values\<close>

text \<open>
  Modelled from the spec: \<^verbatim>\<open>Eval[T]\<close> and its methods \<^verbatim>\<open>shouldUpdate\<close>,
  \<^verbatim>\<open>loadFromCache\<close> and \<^verbatim>\<open>update\<close> (eval.go is not among the sources). A deferred
  value is a static value or a function of external bindings; the record keeps the
  current value, whether a function is set, the hash of the bindings recorded at the
  last refresh, the cache of results per hash and the loading flag. The hash of the
  current bindings is computed outside the model and handed in.
\<close>

record 'a Eval =
  val :: 'a
  fn :: bool
  bindingsHash :: "64 word"
  cache :: "64 word \<rightharpoonup> 'a"
  loading :: bool

definition shouldUpdate :: "64 word \<Rightarrow> 'a Eval \<Rightarrow> bool \<times> 64 word" where
  "shouldUpdate newHash e = (if \<not> fn e then (False, 0) else (bindingsHash e \<noteq> newHash, newHash))"

definition loadFromCache :: "'a Eval \<Rightarrow> bool \<times> 'a Eval" where
  "loadFromCache e =
     (case cache e (bindingsHash e) of
        None \<Rightarrow> (False, e)
      | Some v \<Rightarrow> (True, e\<lparr>loading := False, val := v\<rparr>))"

definition update :: "'a \<Rightarrow> 'a Eval \<Rightarrow> 'a Eval" where
  "update v e = e\<lparr>val := v, cache := (cache e)(bindingsHash e \<mapsto> v), loading := False\<rparr>"

definition newEval :: "'a \<Rightarrow> 'a Eval" where
  "newEval v = \<lparr>val = v, fn = False, bindingsHash = 0, cache = Map.empty, loading = False\<rparr>"

subsection \<open>The prompt of the accessible mode\<close>

text \<open>
  Modelled from the spec: \<^verbatim>\<open>accessibility.PromptInt\<close> (the package is not among the
  sources), the line-based prompt that asks again until the answer is an integer
  within the bounds. The answers the user will type are a list; \<open>None\<close> means that
  they ran out before one was accepted.
\<close>

fun PromptInt :: "int \<Rightarrow> int \<Rightarrow> int list \<Rightarrow> (int \<times> int list) option" where
  "PromptInt lo hi [] = None"
| "PromptInt lo hi (x # xs) = (if lo \<le> x \<and> x \<le> hi then Some (x, xs) else PromptInt lo hi xs)"

lemma PromptInt_shorter: "PromptInt lo hi xs = Some (c, rest) \<Longrightarrow> length rest < length xs"
  by (induction xs) (auto split: if_splits)

text \<open>Reading a slice at a Go index: \<open>None\<close> where Go panics.\<close>

definition at :: "'a list \<Rightarrow> int \<Rightarrow> 'a option" where
  "at xs i = (if 0 \<le> i \<and> i < int (length xs) then Some (xs ! nat i) else None)"

section \<open>The select field\<close>

text \<open>
  The state of \<^verbatim>\<open>Select[T]\<close>; \<open>value\<close> is the externally bound value the field
  points to, \<open>selected\<close> the index of the highlighted option.
\<close>

record 'v Select =
  "value" :: 'v
  title :: string
  description :: string
  validate :: "'v \<Rightarrow> error"
  err :: error
  options :: "'v Option list"
  selected :: int
  focused :: bool
  accessible :: bool
  keymap :: SelectKeyMap

definition Select_Focus :: "'v Select \<Rightarrow> 'v Select" where
  "Select_Focus s = s\<lparr>focused := True\<rparr>"

definition Select_Blur :: "'v Select \<Rightarrow> 'v Select" where
  "Select_Blur s = s\<lparr>focused := False, err := validate s (value s)\<rparr>"

text \<open>
  \<^verbatim>\<open>Select.Update\<close>: a key clears the error; the next key validates the value of
  the highlighted option and, only when it is valid, commits it and asks for the next
  field. Reading \<^verbatim>\<open>s.options[s.selected]\<close> out of range panics.
\<close>

definition Select_Update :: "'v msg \<Rightarrow> 'v Select \<Rightarrow> panic + 'v Select \<times> cmd list" where
  "Select_Update msg s0 =
     (case msg of
        KeyMsg k \<Rightarrow>
          (let s = s0\<lparr>err := None\<rparr>; km = keymap s in
           if Matches k [SelectKeyMap.Up km] then Inr (s\<lparr>selected := max (selected s - 1) 0\<rparr>, [])
           else if Matches k [SelectKeyMap.Down km] then
             Inr (s\<lparr>selected := min (selected s + 1) (int (length (options s)) - 1)\<rparr>, [])
           else if Matches k [SelectKeyMap.Prev km] then Inr (s, [PrevField])
           else if Matches k [SelectKeyMap.Next km] then
             (case at (options s) (selected s) of
                None \<Rightarrow> Inl IndexOutOfRange
              | Some opt \<Rightarrow>
                  (let s1 = s\<lparr>err := validate s (Value opt)\<rparr>
                   in if err s1 \<noteq> None then Inr (s1, [])
                      else Inr (s1\<lparr>value := Value opt\<rparr>, [NextField])))
           else Inr (s, []))
      | _ \<Rightarrow> Inr (s0, []))"

text \<open>
  \<^verbatim>\<open>Select.runAccessible\<close>: the options are printed, the user answers with the
  number of one of them, and its value is stored.
\<close>

definition Select_runAccessible :: "int list \<Rightarrow> 'v Select \<Rightarrow> (panic + 'v Select) option" where
  "Select_runAccessible inputs s =
     (case PromptInt 1 (int (length (options s))) inputs of
        None \<Rightarrow> None
      | Some (choice, rest) \<Rightarrow>
          (case at (options s) (choice - 1) of
             None \<Rightarrow> Some (Inl IndexOutOfRange)
           | Some opt \<Rightarrow> Some (Inr (s\<lparr>value := Value opt\<rparr>))))"

section \<open>The group\<close>

text \<open>
  Modelled from the spec: the \<^verbatim>\<open>Field\<close> interface (declared outside the sources),
  the capability set of a widget. A group holds its fields through it. The interface is
  a record of the methods the group calls, over the type of the fields' states:
  \<open>fieldView\<close> gives the field after rendering and the height of the rendered view
  (\<^verbatim>\<open>lipgloss.Height(field.View())\<close>). The paginator holds the index of the current
  field and the number of fields.
\<close>

record ('v, 'f) Field =
  fieldUpdate :: "'v msg \<Rightarrow> 'f \<Rightarrow> panic + 'f \<times> cmd list"
  fieldBlur :: "'f \<Rightarrow> 'f \<times> cmd list"
  fieldFocus :: "'f \<Rightarrow> 'f \<times> cmd list"
  fieldView :: "'f \<Rightarrow> 'f \<times> int"
  fieldError :: "'f \<Rightarrow> error"

record Paginator =
  Page :: int
  TotalPages :: int

record 'f Group =
  fields' :: "'f list"
  title :: string
  description :: string
  paginator :: Paginator
  viewport :: Viewport
  showHelp :: bool
  showErrors :: bool
  width :: int
  height :: int

fun fullHeight :: "('v, 'f) Field \<Rightarrow> 'f list \<Rightarrow> 'f list \<times> int" where
  "fullHeight F [] = ([], 0)"
| "fullHeight F (f # fs) =
     (let r = fieldView F f; rs = fullHeight F fs
      in (fst r # fst rs, snd r + 1 + snd rs))"

definition NewGroup :: "('v, 'f) Field \<Rightarrow> 'f list \<Rightarrow> 'f Group" where
  "NewGroup F fs =
     (let r = fullHeight F fs
      in \<lparr>fields' = fst r, title = [], description = [],
          paginator = \<lparr>Page = 0, TotalPages = (if length fs < 1 then 1 else int (length fs))\<rparr>,
          viewport = \<lparr>YOffset = 0, Height = snd r, lines = []\<rparr>,
          showHelp = True, showErrors = True, width = 0, height = snd r\<rparr>)"

definition Errors :: "('v, 'f) Field \<Rightarrow> 'f Group \<Rightarrow> string list" where
  "Errors F g = List.map_filter (fieldError F) (fields' g)"

definition setField :: "int \<Rightarrow> 'f \<Rightarrow> 'f Group \<Rightarrow> 'f Group" where
  "setField i f g = g\<lparr>fields' := (fields' g)[nat i := f]\<rparr>"

text \<open>
  \<^verbatim>\<open>setCurrent\<close>: the current field is blurred, the index is clamped to the fields
  of the group, the field there is focused.
\<close>

definition setCurrent :: "('v, 'f) Field \<Rightarrow> int \<Rightarrow> 'f Group \<Rightarrow> panic + 'f Group \<times> cmd list" where
  "setCurrent F current g =
     (case at (fields' g) (Page (paginator g)) of
        None \<Rightarrow> Inl IndexOutOfRange
      | Some f \<Rightarrow>
          (let b = fieldBlur F f;
               g1 = (setField (Page (paginator g)) (fst b) g)
                      \<lparr>paginator := (paginator g)
                         \<lparr>Page := clamp current 0 (int (length (fields' g)) - 1)\<rparr>\<rparr>
           in case at (fields' g1) (Page (paginator g1)) of
                None \<Rightarrow> Inl IndexOutOfRange
              | Some f' \<Rightarrow>
                  (let c = fieldFocus F f'
                   in Inr (setField (Page (paginator g1)) (fst c) g1, snd b @ snd c))))"

text \<open>
  The loops that add up the offset: \<^verbatim>\<open>for i := \<dots>; i < n; i++\<close> renders field \<open>i\<close>
  and adds the height of its view and one row for the gap.
\<close>

function sumHeights :: "('v, 'f) Field \<Rightarrow> int \<Rightarrow> int \<Rightarrow> 'f list \<Rightarrow> int \<Rightarrow> panic + 'f list \<times> int" where
  "sumHeights F i n fs offset =
     (if i < n then
        (case at fs i of
           None \<Rightarrow> Inl IndexOutOfRange
         | Some f \<Rightarrow>
             sumHeights F (i + 1) n (fs[nat i := fst (fieldView F f)])
               (offset + snd (fieldView F f) + 1))
      else Inr (fs, offset))"
  by pat_completeness auto
termination
  by (relation "measure (\<lambda>(F, i, n, fs, offset). nat (n - i))") auto

declare sumHeights.simps [simp del]

definition scrollTo :: "('v, 'f) Field \<Rightarrow> int \<Rightarrow> 'f Group \<Rightarrow> panic + 'f Group" where
  "scrollTo F n g =
     (case sumHeights F 0 n (fields' g) 0 of
        Inl p \<Rightarrow> Inl p
      | Inr (fs, offset) \<Rightarrow> Inr (g\<lparr>fields' := fs, viewport := SetYOffset offset (viewport g)\<rparr>))"

text \<open>
  \<^verbatim>\<open>Group.Update\<close>: the current field sees the message first. On
  \<^verbatim>\<open>nextFieldMsg\<close> the group moves to the next field; when the field was the last one
  it asks the form for the next group, otherwise it scrolls to the rows counted up to
  and including the field it left. \<^verbatim>\<open>prevFieldMsg\<close> is symmetric, the rows are counted
  up to the field before the new one.
\<close>

definition nextFieldStep :: "('v, 'f) Field \<Rightarrow> cmd list \<Rightarrow> 'f Group \<Rightarrow> panic + 'f Group \<times> cmd list" where
  "nextFieldStep F cmds g =
     (let current = Page (paginator g) in
      case setCurrent F (current + 1) g of
        Inl p \<Rightarrow> Inl p
      | Inr (g1, cmd) \<Rightarrow>
          if current \<ge> TotalPages (paginator g1) - 1 then Inr (g1, cmds @ [NextGroup])
          else (case scrollTo F (current + 1) g1 of
                  Inl p \<Rightarrow> Inl p
                | Inr g2 \<Rightarrow> Inr (g2, cmds @ cmd)))"

definition prevFieldStep :: "('v, 'f) Field \<Rightarrow> cmd list \<Rightarrow> 'f Group \<Rightarrow> panic + 'f Group \<times> cmd list" where
  "prevFieldStep F cmds g =
     (let current = Page (paginator g) in
      case setCurrent F (current - 1) g of
        Inl p \<Rightarrow> Inl p
      | Inr (g1, cmd) \<Rightarrow>
          if current = 0 then Inr (g1, cmds @ [PrevGroup])
          else (case scrollTo F (current - 1) g1 of
                  Inl p \<Rightarrow> Inl p
                | Inr g2 \<Rightarrow> Inr (g2, cmds @ cmd)))"

definition Group_Update :: "('v, 'f) Field \<Rightarrow> 'v msg \<Rightarrow> 'f Group \<Rightarrow> panic + 'f Group \<times> cmd list" where
  "Group_Update F msg g =
     (case at (fields' g) (Page (paginator g)) of
        None \<Rightarrow> Inl IndexOutOfRange
      | Some f \<Rightarrow>
          (case fieldUpdate F msg f of
             Inl p \<Rightarrow> Inl p
           | Inr (f', cmds) \<Rightarrow>
               (let g1 = setField (Page (paginator g)) f' g in
                case msg of
                  NextFieldMsg \<Rightarrow> nextFieldStep F cmds g1
                | PrevFieldMsg \<Rightarrow> prevFieldStep F cmds g1
                | _ \<Rightarrow> Inr (g1, cmds))))"

text \<open>
  A select field behind the interface; \<open>H\<close> is the height the rendering library gives
  to the field's view.
\<close>

definition SelectField :: "('v Select \<Rightarrow> int) \<Rightarrow> ('v, 'v Select) Field" where
  "SelectField H =
     \<lparr>fieldUpdate = Select_Update,
      fieldBlur = (\<lambda>s. (Select_Blur s, [])),
      fieldFocus = (\<lambda>s. (Select_Focus s, [])),
      fieldView = (\<lambda>s. (s, H s)),
      fieldError = Select.err\<rparr>"

section \<open>The multi-select field\<close>

text \<open>
  Modelled from the spec: \<^verbatim>\<open>Accessor\<close> (accessor.go is not among the sources), the
  reference to the externally bound value: the field \<open>accessor\<close> below is the value it
  refers to, \<^verbatim>\<open>Get\<close> reads it and \<^verbatim>\<open>Set\<close> writes it.
\<close>

text \<open>
  The state of \<^verbatim>\<open>MultiSelect[T]\<close>. \<open>selected\<close> is the Go map from an index to
  the option selected there. \<open>filteredShared\<close> records the aliasing of the two option
  slices: it holds when \<^verbatim>\<open>filteredOptions\<close> is the same slice as \<^verbatim>\<open>options.val\<close>
  (after \<^verbatim>\<open>m.filteredOptions = m.options.val\<close>), so that a write through one is seen
  through the other. The theme and the spinner's frame are styling and are left out.
\<close>

record 'v MultiSelect =
  accessor :: "'v list"
  key :: string
  id :: int
  title :: "string Eval"
  description :: "string Eval"
  options :: "'v Option list Eval"
  filterable :: bool
  filteredOptions :: "'v Option list"
  filteredShared :: bool
  limit :: int
  height :: int
  validate :: "'v list \<Rightarrow> error"
  err :: error
  cursor :: int
  focused :: bool
  filtering :: bool
  filter :: TextInput
  viewport :: Viewport
  selected :: "int \<rightharpoonup> 'v Option"
  width :: int
  accessible :: bool
  keymap :: MultiSelectKeyMap

definition defaultLimit :: int where
  "defaultLimit = 2"

text \<open>\<^verbatim>\<open>NewMultiSelect\<close>; the fresh id comes from a global counter and is handed in.\<close>

definition NewMultiSelect :: "int \<Rightarrow> 'v MultiSelect" where
  "NewMultiSelect nid =
     \<lparr>accessor = [], key = [], id = nid,
      title = newEval [], description = newEval [], options = newEval [],
      filterable = False, filteredOptions = [], filteredShared = True,
      limit = defaultLimit, height = 0,
      validate = (\<lambda>_. None), err = None,
      cursor = 0, focused = False, filtering = False,
      filter = newTextInput, viewport = newViewport,
      selected = Map.empty, width = 0, accessible = False, keymap = noKeyMap\<rparr>"

definition Limit :: "int \<Rightarrow> 'v MultiSelect \<Rightarrow> 'v MultiSelect" where
  "Limit l m =
     m\<lparr>limit := l, keymap := (keymap m)\<lparr>ToggleAll := SetEnabled (l = 0) (ToggleAll (keymap m))\<rparr>\<rparr>"

definition numSelected :: "'v MultiSelect \<Rightarrow> int" where
  "numSelected m = int (card (dom (MultiSelect.selected m)))"

text \<open>
  \<^verbatim>\<open>ToggleSelect\<close>: the new state and the returned error. A selected index is
  deleted from the map; otherwise the option is stored unless the number of entries
  has reached the limit.
\<close>

definition ToggleSelect :: "int \<Rightarrow> 'v Option \<Rightarrow> 'v MultiSelect \<Rightarrow> 'v MultiSelect \<times> error" where
  "ToggleSelect index opt m =
     (if MultiSelect.selected m index \<noteq> None
      then (m\<lparr>MultiSelect.selected := (MultiSelect.selected m)(index := None)\<rparr>, None)
      else if numSelected m \<ge> limit m
      then (m, Some ''Limit reached. Unable to select another option.'')
      else (m\<lparr>MultiSelect.selected := (MultiSelect.selected m)(index \<mapsto> opt)\<rparr>, None))"

definition isSelected :: "int \<Rightarrow> 'v MultiSelect \<Rightarrow> bool" where
  "isSelected index m = (MultiSelect.selected m index \<noteq> None)"

text \<open>
  \<^verbatim>\<open>initSelectedValues\<close>: every option flagged as selected enters the map at its
  position in the list.
\<close>

fun initSelectedFrom :: "int \<Rightarrow> 'v Option list \<Rightarrow> (int \<rightharpoonup> 'v Option) \<Rightarrow> (int \<rightharpoonup> 'v Option)" where
  "initSelectedFrom i [] sel = sel"
| "initSelectedFrom i (x # xs) sel =
     initSelectedFrom (i + 1) xs (if Option.selected x then sel(i \<mapsto> x) else sel)"

definition initSelectedValues :: "'v Option list \<Rightarrow> 'v MultiSelect \<Rightarrow> 'v MultiSelect" where
  "initSelectedValues opts m =
     m\<lparr>MultiSelect.selected := initSelectedFrom 0 opts (MultiSelect.selected m)\<rparr>"


text \<open>
  What the field takes from outside at each step: the heights that the rendering
  library gives to the title and the description (\<^verbatim>\<open>lipgloss.Height\<close> of
  \<^verbatim>\<open>titleView\<close> and \<^verbatim>\<open>descriptionView\<close>), the filter input's own reaction to a message,
  \<^verbatim>\<open>strings.ToLower\<close>, and the hash of the bindings of each deferred value as they
  are now.
\<close>

record 'v Env =
  titleHeight :: "'v MultiSelect \<Rightarrow> int"
  descriptionHeight :: "'v MultiSelect \<Rightarrow> int"
  filterUpdate :: "'v msg \<Rightarrow> TextInput \<Rightarrow> TextInput \<times> cmd list"
  toLower :: "string \<Rightarrow> string"
  titleHash :: "64 word"
  descriptionHash :: "64 word"
  optionsHash :: "64 word"

definition updateViewportHeight :: "'v Env \<Rightarrow> 'v MultiSelect \<Rightarrow> 'v MultiSelect" where
  "updateViewportHeight env m =
     (if height m \<le> 0
      then m\<lparr>viewport := (viewport m)\<lparr>Height := int (length (val (options m)))\<rparr>\<rparr>
      else m\<lparr>viewport := (viewport m)
             \<lparr>Height := max 1 (height m - titleHeight env m - descriptionHeight env m)\<rparr>\<rparr>)"

text \<open>
  \<^verbatim>\<open>updateValue\<close> ranges over the Go map \<^verbatim>\<open>m.selected\<close>, and Go leaves the order of
  a map range unspecified (it may differ from one range to the next). The order in
  which the range visits the keys is therefore an argument: \<open>ks\<close> is a list of the
  keys of the map, each once (\<open>range_order\<close>).
\<close>

definition range_order :: "int list \<Rightarrow> (int \<rightharpoonup> 'a) \<Rightarrow> bool" where
  "range_order ks sel = (distinct ks \<and> set ks = dom sel)"

definition updateValue :: "int list \<Rightarrow> 'v MultiSelect \<Rightarrow> 'v MultiSelect" where
  "updateValue ks m =
     (let v = map Value (List.map_filter (MultiSelect.selected m) ks)
      in m\<lparr>accessor := v, err := validate m v\<rparr>)"

definition lowestSelectedIndex :: "'v MultiSelect \<Rightarrow> int" where
  "lowestSelectedIndex m =
     (if numSelected m = 0 then 0 else Min (dom (MultiSelect.selected m)))"

definition MultiSelect_Focus :: "int list \<Rightarrow> 'v MultiSelect \<Rightarrow> 'v MultiSelect" where
  "MultiSelect_Focus ks m = (updateValue ks m)\<lparr>focused := True\<rparr>"

definition MultiSelect_Blur :: "int list \<Rightarrow> 'v MultiSelect \<Rightarrow> 'v MultiSelect" where
  "MultiSelect_Blur ks m = (updateValue ks m)\<lparr>focused := False\<rparr>"

definition Options :: "'v Env \<Rightarrow> 'v Option list \<Rightarrow> 'v MultiSelect \<Rightarrow> 'v MultiSelect" where
  "Options env opts m =
     (if length opts \<le> 0 then m
      else
        (let m1 = initSelectedValues opts m;
             m2 = m1\<lparr>options := (options m1)\<lparr>val := opts\<rparr>,
                     filteredOptions := opts, filteredShared := True\<rparr>;
             m3 = m2\<lparr>cursor := lowestSelectedIndex m2\<rparr>
         in updateViewportHeight env m3))"

definition Height' :: "'v Env \<Rightarrow> int \<Rightarrow> 'v MultiSelect \<Rightarrow> 'v MultiSelect" where
  "Height' env h m = updateViewportHeight env (m\<lparr>height := h\<rparr>)"

definition WithKeyMap :: "MultiSelectKeyMap \<Rightarrow> 'v MultiSelect \<Rightarrow> 'v MultiSelect" where
  "WithKeyMap km m = m\<lparr>keymap := km\<rparr>"

subsection \<open>Rendering\<close>

text \<open>
  What \<^verbatim>\<open>View\<close> does to the state: it sets the content of the viewport to the
  rendered options and calls \<^verbatim>\<open>startAtSelected\<close>. The rendered lines are modelled
  without their styling and without the loading indicator, for a field with at least
  one option whose filtered options are among its options: \<^verbatim>\<open>optionsView\<close> writes one
  line per filtered option and then blank lines up to the number of options of the
  full set.
\<close>

definition optionsViewLines :: "'v MultiSelect \<Rightarrow> string list" where
  "optionsViewLines m =
     map String (filteredOptions m)
       @ replicate (length (val (options m)) - length (filteredOptions m)) []"

definition startAtSelected :: "'v MultiSelect \<Rightarrow> 'v MultiSelect" where
  "startAtSelected m =
     (if cursor m > YOffset (viewport m) + Height (viewport m)
      then m\<lparr>viewport := SetYOffset (cursor m - YOffset (viewport m)) (viewport m)\<rparr>
      else m)"

definition MultiSelect_View :: "'v MultiSelect \<Rightarrow> 'v MultiSelect" where
  "MultiSelect_View m =
     startAtSelected (m\<lparr>viewport := SetContent (optionsViewLines m) (viewport m)\<rparr>)"

subsection \<open>Cursor movement\<close>

text \<open>The directions are the constants \<^verbatim>\<open>top\<close> \<dots> \<^verbatim>\<open>halfDown\<close> (0 to 5) of the source.\<close>

definition top_dir :: int where "top_dir = 0"
definition bottom_dir :: int where "bottom_dir = 1"
definition up_dir :: int where "up_dir = 2"
definition down_dir :: int where "down_dir = 3"
definition halfUp_dir :: int where "halfUp_dir = 4"
definition halfDown_dir :: int where "halfDown_dir = 5"

definition moveCursor :: "int \<Rightarrow> 'v MultiSelect \<Rightarrow> 'v MultiSelect" where
  "moveCursor i m =
     (let v = viewport m; n = int (length (filteredOptions m)) in
      if i = top_dir then m\<lparr>cursor := top_dir, viewport := GotoTop v\<rparr>
      else if i = up_dir then
        (let c = max (cursor m - 1) 0
         in m\<lparr>cursor := c, viewport := (if c < YOffset v then SetYOffset c v else v)\<rparr>)
      else if i = down_dir then
        (let c = min (cursor m + 1) (n - 1)
         in m\<lparr>cursor := c, viewport := (if c \<ge> YOffset v + Height v then LineDown 1 v else v)\<rparr>)
      else if i = bottom_dir then m\<lparr>cursor := n - 1, viewport := GotoBottom v\<rparr>
      else if i = halfUp_dir then
        m\<lparr>cursor := max (cursor m - go_div (Height v) 2) 0, viewport := HalfViewUp v\<rparr>
      else if i = halfDown_dir then
        m\<lparr>cursor := min (cursor m + go_div (Height v) 2) (n - 1), viewport := HalfViewDown v\<rparr>
      else m)"

subsection \<open>Filtering\<close>

definition setFilter :: "bool \<Rightarrow> 'v MultiSelect \<Rightarrow> 'v MultiSelect" where
  "setFilter f m =
     m\<lparr>filtering := f,
       keymap := (keymap m)
         \<lparr>SetFilter := SetEnabled f (SetFilter (keymap m)),
          Filter := SetEnabled (\<not> f) (Filter (keymap m)),
          Next := SetEnabled (\<not> f) (Next (keymap m)),
          Submit := SetEnabled (\<not> f) (Submit (keymap m)),
          Prev := SetEnabled (\<not> f) (Prev (keymap m)),
          ClearFilter := SetEnabled (\<not> f \<and> tvalue (filter m) \<noteq> []) (ClearFilter (keymap m))\<rparr>\<rparr>"

definition filterFunc :: "'v Env \<Rightarrow> string \<Rightarrow> 'v MultiSelect \<Rightarrow> bool" where
  "filterFunc env s m = sublist (toLower env (tvalue (filter m))) (toLower env s)"

definition showAll :: "'v MultiSelect \<Rightarrow> 'v MultiSelect" where
  "showAll m = m\<lparr>filteredOptions := val (options m), filteredShared := True\<rparr>"

text \<open>The end of the key case: while filtering, the filtered options are recomputed.\<close>

definition applyFilter :: "'v Env \<Rightarrow> 'v MultiSelect \<Rightarrow> 'v MultiSelect" where
  "applyFilter env m =
     (if filtering m then
        (let m1 = (if tvalue (filter m) \<noteq> []
                   then m\<lparr>filteredOptions :=
                            List.filter (\<lambda>opt. filterFunc env (String opt) m) (val (options m)),
                          filteredShared := False\<rparr>
                   else showAll m)
         in if length (filteredOptions m1) > 0
            then m1\<lparr>cursor := min (cursor m1) (int (length (filteredOptions m1)) - 1)\<rparr>
            else m1)
      else m)"

subsection \<open>Toggling all options\<close>

text \<open>
  The key case of \<^verbatim>\<open>ToggleAll\<close>: the flag to write is whether some filtered option
  is not flagged; then, for every option, the first filtered option with the same key
  is looked up and, when there is one, both are flagged. When the two slices are the
  same slice the two writes go to one array.
\<close>

definition setSelected :: "bool \<Rightarrow> 'v Option \<Rightarrow> 'v Option" where
  "setSelected b opt = opt\<lparr>Option.selected := b\<rparr>"

fun indexOfKey :: "string \<Rightarrow> 'v Option list \<Rightarrow> nat option" where
  "indexOfKey k [] = None"
| "indexOfKey k (x # xs) = (if k = Key x then Some 0 else map_option Suc (indexOfKey k xs))"

definition toggleAt :: "bool \<Rightarrow> nat \<Rightarrow> 'v Option list \<times> 'v Option list \<Rightarrow> 'v Option list \<times> 'v Option list" where
  "toggleAt b i p =
     (case indexOfKey (Key (fst p ! i)) (snd p) of
        None \<Rightarrow> p
      | Some j \<Rightarrow> ((fst p)[i := setSelected b (fst p ! i)], (snd p)[j := setSelected b (snd p ! j)]))"

definition toggleAtShared :: "bool \<Rightarrow> nat \<Rightarrow> 'v Option list \<Rightarrow> 'v Option list" where
  "toggleAtShared b i arr =
     (case indexOfKey (Key (arr ! i)) arr of
        None \<Rightarrow> arr
      | Some j \<Rightarrow>
          (let arr1 = arr[i := setSelected b (arr ! i)]
           in arr1[j := setSelected b (arr1 ! j)]))"

definition toggleAll :: "'v MultiSelect \<Rightarrow> 'v MultiSelect" where
  "toggleAll m =
     (let b = list_ex (\<lambda>opt. \<not> Option.selected opt) (filteredOptions m);
          opts = val (options m)
      in if filteredShared m
         then (let arr = fold (toggleAtShared b) [0..<length opts] opts
               in m\<lparr>options := (options m)\<lparr>val := arr\<rparr>, filteredOptions := arr\<rparr>)
         else (let p = fold (toggleAt b) [0..<length opts] (opts, filteredOptions m)
               in m\<lparr>options := (options m)\<lparr>val := fst p\<rparr>, filteredOptions := snd p\<rparr>))"


subsection \<open>Update\<close>

text \<open>
  The refresh of the three deferred values on \<^verbatim>\<open>updateFieldMsg\<close>. Each one compares
  the hash of the current bindings with the recorded one; on a change it records the
  new hash and either loads the cached value or marks the value as loading and issues
  the command that will deliver the recomputed value together with that hash.
\<close>

definition refreshTitle :: "'v Env \<Rightarrow> 'v MultiSelect \<Rightarrow> 'v MultiSelect \<times> cmd list" where
  "refreshTitle env m =
     (case shouldUpdate (titleHash env) (title m) of
        (False, _) \<Rightarrow> (m, [])
      | (True, h) \<Rightarrow>
          (case loadFromCache ((title m)\<lparr>bindingsHash := h\<rparr>) of
             (True, e) \<Rightarrow> (m\<lparr>title := e\<rparr>, [])
           | (False, e) \<Rightarrow> (m\<lparr>title := e\<lparr>loading := True\<rparr>\<rparr>, [TitleCmd (id m) h])))"

definition refreshDescription :: "'v Env \<Rightarrow> 'v MultiSelect \<Rightarrow> 'v MultiSelect \<times> cmd list" where
  "refreshDescription env m =
     (case shouldUpdate (descriptionHash env) (description m) of
        (False, _) \<Rightarrow> (m, [])
      | (True, h) \<Rightarrow>
          (case loadFromCache ((description m)\<lparr>bindingsHash := h\<rparr>) of
             (True, e) \<Rightarrow> (m\<lparr>description := e\<rparr>, [])
           | (False, e) \<Rightarrow>
               (m\<lparr>description := e\<lparr>loading := True\<rparr>\<rparr>, [DescriptionCmd (id m) h])))"

definition clampCursor :: "'v MultiSelect \<Rightarrow> 'v MultiSelect" where
  "clampCursor m = m\<lparr>cursor := clamp (cursor m) 0 (int (length (filteredOptions m)) - 1)\<rparr>"

definition refreshOptions :: "'v Env \<Rightarrow> int list \<Rightarrow> 'v MultiSelect \<Rightarrow> 'v MultiSelect \<times> cmd list" where
  "refreshOptions env ks m =
     (case shouldUpdate (optionsHash env) (options m) of
        (False, _) \<Rightarrow> (m, [])
      | (True, h) \<Rightarrow>
          (case loadFromCache ((options m)\<lparr>bindingsHash := h\<rparr>) of
             (True, e) \<Rightarrow> (clampCursor (updateValue ks (showAll (m\<lparr>options := e\<rparr>))), [])
           | (False, e) \<Rightarrow>
               (m\<lparr>options := e\<lparr>loading := True\<rparr>\<rparr>, [OptionsCmd (id m) h, SpinnerTick])))"

definition updateField :: "'v Env \<Rightarrow> int list \<Rightarrow> 'v MultiSelect \<Rightarrow> 'v MultiSelect \<times> cmd list" where
  "updateField env ks m =
     (let (m1, c1) = refreshTitle env m;
          (m2, c2) = refreshDescription env m1;
          (m3, c3) = refreshOptions env ks m2
      in (m3, c1 @ c2 @ c3))"

text \<open>
  The delivery of a recomputed value: it is applied only when the message is for this
  field and was computed for the hash that is recorded now.
\<close>

definition deliverTitle :: "int \<Rightarrow> string \<Rightarrow> 64 word \<Rightarrow> 'v MultiSelect \<Rightarrow> 'v MultiSelect" where
  "deliverTitle i t h m =
     (if i = id m \<and> h = bindingsHash (title m) then m\<lparr>title := update t (title m)\<rparr> else m)"

definition deliverDescription :: "int \<Rightarrow> string \<Rightarrow> 64 word \<Rightarrow> 'v MultiSelect \<Rightarrow> 'v MultiSelect" where
  "deliverDescription i d h m =
     (if i = id m \<and> h = bindingsHash (description m)
      then m\<lparr>description := update d (description m)\<rparr> else m)"

definition deliverOptions :: "int list \<Rightarrow> int \<Rightarrow> 'v Option list \<Rightarrow> 64 word \<Rightarrow> 'v MultiSelect \<Rightarrow> 'v MultiSelect" where
  "deliverOptions ks i opts h m =
     (if i = id m \<and> h = bindingsHash (options m)
      then clampCursor (updateValue ks (showAll (m\<lparr>options := update opts (options m)\<rparr>)))
      else m)"

text \<open>
  The key case. Its outcome is an early return with the commands returned there, a
  fall through to the end of the case (where the filter is applied), or a panic: the
  toggle reads \<^verbatim>\<open>m.options.val[m.cursor]\<close>.
\<close>

datatype 'v step =
    Done "'v MultiSelect" "cmd list"
  | Fallthrough "'v MultiSelect"
  | Fail panic

definition validateValue :: "'v MultiSelect \<Rightarrow> 'v MultiSelect" where
  "validateValue m = m\<lparr>err := validate m (accessor m)\<rparr>"

definition updateKey :: "int list \<Rightarrow> string \<Rightarrow> 'v MultiSelect \<Rightarrow> 'v step" where
  "updateKey ks k m0 =
     (let m = m0\<lparr>err := None\<rparr>; km = keymap m in
      if Matches k [Filter km] then
        (let m1 = setFilter True m
         in Done (m1\<lparr>filter := (filter m1)\<lparr>tfocus := True\<rparr>\<rparr>) [TextInputCmd])
      else if Matches k [SetFilter km] then
        Fallthrough (setFilter False
          (if length (filteredOptions m) \<le> 0
           then showAll (m\<lparr>filter := (filter m)\<lparr>tvalue := []\<rparr>\<rparr>)
           else m))
      else if Matches k [ClearFilter km] then
        Fallthrough (setFilter False (showAll (m\<lparr>filter := (filter m)\<lparr>tvalue := []\<rparr>\<rparr>)))
      else if Matches k [Up km] then
        (if filtering m \<and> k = ''k'' then Fallthrough m else Fallthrough (moveCursor up_dir m))
      else if Matches k [Down km] then
        (if filtering m \<and> k = ''j'' then Fallthrough m else Fallthrough (moveCursor down_dir m))
      else if Matches k [MultiSelectKeyMap.GotoTop km] then
        (if filtering m then Fallthrough m else Fallthrough (moveCursor top_dir m))
      else if Matches k [MultiSelectKeyMap.GotoBottom km] then
        (if filtering m then Fallthrough m else Fallthrough (moveCursor bottom_dir m))
      else if Matches k [HalfPageUp km] then Fallthrough (moveCursor halfUp_dir m)
      else if Matches k [HalfPageDown km] then Fallthrough (moveCursor halfDown_dir m)
      else if Matches k [Toggle km] \<and> \<not> filtering m then
        (if 0 \<le> cursor m \<and> cursor m < int (length (val (options m)))
         then Fallthrough
                (updateValue ks
                   (fst (ToggleSelect (cursor m) (val (options m) ! nat (cursor m)) m)))
         else Fail IndexOutOfRange)
      else if Matches k [ToggleAll km] \<and> limit m = 0 then
        Fallthrough (updateValue ks (toggleAll m))
      else if Matches k [Prev km] then
        (let m1 = validateValue (updateValue ks m)
         in if err m1 \<noteq> None then Done m1 [] else Done m1 [PrevField])
      else if Matches k [Next km, Submit km] then
        (let m1 = validateValue (updateValue ks m)
         in if err m1 \<noteq> None then Done m1 [] else Done m1 [NextField])
      else Fallthrough m)"

text \<open>
  \<^verbatim>\<open>Update\<close>: the viewport height is enforced, the filter input sees the message
  while filtering, then the message is dispatched on its type. \<open>ks\<close> is the order of the
  map range of the one \<^verbatim>\<open>updateValue\<close> call a step can make.
\<close>

definition MultiSelect_Update :: "'v Env \<Rightarrow> int list \<Rightarrow> 'v msg \<Rightarrow> 'v MultiSelect \<Rightarrow> panic + 'v MultiSelect \<times> cmd list" where
  "MultiSelect_Update env ks msg m0 =
     (let m1 = updateViewportHeight env m0;
          fu = filterUpdate env msg (filter m1);
          m = (if filtering m1 then m1\<lparr>filter := fst fu\<rparr> else m1);
          cmds = (if filtering m1 then snd fu else [])
      in case msg of
           UpdateFieldMsg \<Rightarrow> Inr (updateField env ks m)
         | SpinnerTickMsg \<Rightarrow>
             (if \<not> loading (options m) then Inr (m, cmds) else Inr (m, [SpinnerTick]))
         | UpdateTitleMsg i t h \<Rightarrow> Inr (deliverTitle i t h m, cmds)
         | UpdateDescriptionMsg i d h \<Rightarrow> Inr (deliverDescription i d h m, cmds)
         | UpdateOptionsMsg i opts h \<Rightarrow> Inr (deliverOptions ks i opts h m, cmds)
         | KeyMsg k \<Rightarrow>
             (case updateKey ks k m of
                Done m' c \<Rightarrow> Inr (m', c)
              | Fail p \<Rightarrow> Inl p
              | Fallthrough m' \<Rightarrow> Inr (applyFilter env m', cmds))
         | _ \<Rightarrow> Inr (m, cmds))"

subsection \<open>The accessible run\<close>

text \<open>
  The prompt loop of \<^verbatim>\<open>runAccessible\<close>. Answer 0 commits and validates, and ends the
  loop when the value is valid; any other answer toggles the option of that number.
  \<open>kss\<close> holds the orders of the map ranges of the successive \<^verbatim>\<open>updateValue\<close> calls.
  The result is \<open>None\<close> when the answers (or the orders) run out before the loop ends.
\<close>

function promptLoop :: "int list \<Rightarrow> int list list \<Rightarrow> 'v MultiSelect \<Rightarrow> (panic + 'v MultiSelect) option" where
  "promptLoop inputs kss m =
     (case PromptInt 0 (int (length (val (options m)))) inputs of
        None \<Rightarrow> None
      | Some (choice, rest) \<Rightarrow>
          if choice = 0 then
            (case kss of
               [] \<Rightarrow> None
             | ks # kss' \<Rightarrow>
                 (let m1 = updateValue ks m
                  in if validate m1 (accessor m1) \<noteq> None then promptLoop rest kss' m1
                     else Some (Inr m1)))
          else if choice - 1 < int (length (val (options m))) \<and> 0 \<le> choice - 1 then
            promptLoop rest kss
              (fst (ToggleSelect (choice - 1) (val (options m) ! nat (choice - 1)) m))
          else Some (Inl IndexOutOfRange))"
  by pat_completeness auto
termination
  by (relation "measure (\<lambda>(inputs, kss, m). length inputs)") (auto dest: PromptInt_shorter)

declare promptLoop.simps [simp del]

text \<open>
  The loop after the prompt: starting from the value the accessor holds, every option
  whose index is selected is appended.
\<close>

fun collectSelected :: "int \<Rightarrow> 'v Option list \<Rightarrow> 'v list \<times> (int \<rightharpoonup> 'v Option) \<Rightarrow> 'v list \<times> (int \<rightharpoonup> 'v Option)" where
  "collectSelected i [] acc = acc"
| "collectSelected i (x # xs) acc =
     collectSelected (i + 1) xs
       (if snd acc i \<noteq> None then (fst acc @ [Value x], (snd acc)(i \<mapsto> x)) else acc)"

definition MultiSelect_runAccessible :: "int list \<Rightarrow> int list list \<Rightarrow> 'v MultiSelect \<Rightarrow> (panic + 'v MultiSelect) option" where
  "MultiSelect_runAccessible inputs kss m =
     (case promptLoop inputs kss m of
        None \<Rightarrow> None
      | Some (Inl p) \<Rightarrow> Some (Inl p)
      | Some (Inr m1) \<Rightarrow>
          (let r = collectSelected 0 (val (options m1)) (accessor m1, MultiSelect.selected m1)
           in Some (Inr (m1\<lparr>accessor := fst r, MultiSelect.selected := snd r\<rparr>))))"


section \<open>Example states\<close>

definition optA :: "string Option" where
  "optA = \<lparr>Key = ''A'', Value = ''a'', selected = False\<rparr>"

definition optB :: "string Option" where
  "optB = \<lparr>Key = ''B'', Value = ''b'', selected = False\<rparr>"

definition optC :: "string Option" where
  "optC = \<lparr>Key = ''C'', Value = ''c'', selected = False\<rparr>"

definition optD :: "string Option" where
  "optD = \<lparr>Key = ''D'', Value = ''d'', selected = False\<rparr>"

text \<open>
  A fresh field that was given four options, all flagged as selected: its limit is
  the default one, and its map holds all four.
\<close>

definition fourPreselected :: "string MultiSelect" where
  "fourPreselected =
     initSelectedValues (map (setSelected True) [optA, optB, optC, optD]) (NewMultiSelect 1)"

text \<open>A fresh field after two successful selections.\<close>

definition twoSelected :: "string MultiSelect" where
  "twoSelected = fst (ToggleSelect 1 optB (fst (ToggleSelect 0 optA (NewMultiSelect 1))))"

text \<open>
  An environment for the examples: title and description take one row each, the
  filter input ignores messages, and the bindings hash is 0.
\<close>

definition envEx :: "string Env" where
  "envEx = \<lparr>titleHeight = (\<lambda>_. 1), descriptionHeight = (\<lambda>_. 1),
     filterUpdate = (\<lambda>_ t. (t, [])), toLower = (\<lambda>s. s),
     titleHash = 0, descriptionHash = 0, optionsHash = 0\<rparr>"

definition keyMapEx :: MultiSelectKeyMap where
  "keyMapEx = noKeyMap\<lparr>Toggle := \<lparr>keys = [''x''], enabled = True\<rparr>,
      ToggleAll := \<lparr>keys = [''ctrl+a''], enabled = False\<rparr>,
      Next := \<lparr>keys = [''enter''], enabled = True\<rparr>\<rparr>"

text \<open>A field with the two options A and B, none pre-selected, and the default limit.\<close>

definition multiAB :: "string MultiSelect" where
  "multiAB = Options envEx [optA, optB] (WithKeyMap keyMapEx (NewMultiSelect 1))"

text \<open>The same field with the limit set to 0, which also enables the toggle-all key.\<close>

definition unlimitedAB :: "string MultiSelect" where
  "unlimitedAB = Limit 0 multiAB"

text \<open>
  A field of height 6 (four rows of options) with ten options, the fifth of them
  pre-selected, after it has been rendered: the cursor starts at the pre-selected
  option, index 4, while the viewport shows rows 0 to 3.
\<close>

definition tenOptions :: "string Option list" where
  "tenOptions = [optA, optA, optA, optA, setSelected True optB, optC, optC, optC, optC, optC]"

definition fifthPreselected :: "string MultiSelect" where
  "fifthPreselected =
     MultiSelect_View (Height' envEx 6 (Options envEx tenOptions (NewMultiSelect 1)))"

text \<open>
  A field whose options are a function of bindings, before the first refresh, and the
  same field while it waits for the options computed for hash \<open>h\<close>.
\<close>

definition withOptionsFunc :: "string MultiSelect" where
  "withOptionsFunc = (NewMultiSelect 1)\<lparr>options := (newEval [])\<lparr>fn := True\<rparr>\<rparr>"

definition awaiting :: "64 word \<Rightarrow> string MultiSelect" where
  "awaiting h =
     (NewMultiSelect 1)\<lparr>options := (newEval [])\<lparr>fn := True, bindingsHash := h, loading := True\<rparr>\<rparr>"

text \<open>Select fields: one that rejects the value of option B, one that requires a value.\<close>

definition selectKeysEx :: SelectKeyMap where
  "selectKeysEx = \<lparr>SelectKeyMap.Up = \<lparr>keys = [''up''], enabled = True\<rparr>,
      SelectKeyMap.Down = \<lparr>keys = [''down''], enabled = True\<rparr>,
      SelectKeyMap.Next = \<lparr>keys = [''enter''], enabled = True\<rparr>,
      SelectKeyMap.Prev = \<lparr>keys = [''shift+tab''], enabled = True\<rparr>\<rparr>"

definition notB :: "string \<Rightarrow> error" where
  "notB v = (if v = ''b'' then Some ''b is not allowed'' else None)"

definition required :: "string \<Rightarrow> error" where
  "required v = (if v = [] then Some ''required'' else None)"

definition selectAB :: "string Select" where
  "selectAB = \<lparr>Select.value = [], Select.title = ''Pick'', Select.description = [],
      Select.validate = notB, Select.err = None, Select.options = [optA, optB],
      Select.selected = 1, Select.focused = True, Select.accessible = False,
      Select.keymap = selectKeysEx\<rparr>"

definition selectOk :: "string Select" where
  "selectOk = \<lparr>Select.value = ''a'', Select.title = ''First'', Select.description = [],
      Select.validate = (\<lambda>_. None), Select.err = None, Select.options = [optA, optB],
      Select.selected = 0, Select.focused = True, Select.accessible = False,
      Select.keymap = selectKeysEx\<rparr>"

text \<open>
  A select field that was left with an invalid value: its \<^verbatim>\<open>Blur\<close> recorded the
  error.
\<close>

definition selectInvalid :: "string Select" where
  "selectInvalid = \<lparr>Select.value = [], Select.title = ''Second'', Select.description = [],
      Select.validate = required, Select.err = Some ''required'', Select.options = [optA, optB],
      Select.selected = 0, Select.focused = False, Select.accessible = False,
      Select.keymap = selectKeysEx\<rparr>"

text \<open>Select fields whose view is one row high, and groups of them at page \<open>p\<close>.\<close>

definition oneRow :: "(string, string Select) Field" where
  "oneRow = SelectField (\<lambda>_. 1)"

definition groupEx :: "int \<Rightarrow> string Select Group" where
  "groupEx p =
     (NewGroup oneRow [selectOk, selectInvalid])\<lparr>paginator := \<lparr>Page = p, TotalPages = 2\<rparr>\<rparr>"

definition gateEx :: "string Select Group" where
  "gateEx = NewGroup oneRow [selectAB, selectOk]"


text \<open>
  A field of height 6 with ten options, five of them with the key a, and the keys of
  the filter; a filter input that appends a typed character while it has the focus;
  and the runtime's step for a key: \<^verbatim>\<open>Update\<close>, then \<^verbatim>\<open>View\<close>. \<open>filteredFive\<close> is the
  field after the keys \<^verbatim>\<open>/\<close>, \<^verbatim>\<open>a\<close> and \<^verbatim>\<open>enter\<close>: the filter is set and shows the five
  options with the key a.
\<close>

definition typing :: "string msg \<Rightarrow> TextInput \<Rightarrow> TextInput \<times> cmd list" where
  "typing msg t =
     (case msg of
        KeyMsg k \<Rightarrow>
          (if tfocus t \<and> length k = 1 then (t\<lparr>tvalue := tvalue t @ k\<rparr>, []) else (t, []))
      | _ \<Rightarrow> (t, []))"

definition envTyping :: "string Env" where
  "envTyping = envEx\<lparr>filterUpdate := typing\<rparr>"

definition keyMapFilter :: MultiSelectKeyMap where
  "keyMapFilter = noKeyMap
     \<lparr>MultiSelectKeyMap.GotoBottom := \<lparr>keys = [''G''], enabled = True\<rparr>,
      Filter := \<lparr>keys = [''/''], enabled = True\<rparr>,
      SetFilter := \<lparr>keys = [''enter''], enabled = False\<rparr>\<rparr>"

definition optLa :: "string Option" where
  "optLa = \<lparr>Key = ''a'', Value = ''a'', selected = False\<rparr>"

definition optLb :: "string Option" where
  "optLb = \<lparr>Key = ''b'', Value = ''b'', selected = False\<rparr>"

definition tenMixed :: "string Option list" where
  "tenMixed = [optLa, optLb, optLa, optLb, optLa, optLb, optLa, optLb, optLa, optLb]"

definition tenMixedField :: "string MultiSelect" where
  "tenMixedField =
     MultiSelect_View
       (Height' envEx 6 (Options envEx tenMixed (WithKeyMap keyMapFilter (NewMultiSelect 1))))"

definition press :: "'v Env \<Rightarrow> string \<Rightarrow> 'v MultiSelect \<Rightarrow> 'v MultiSelect option" where
  "press env k m =
     (case MultiSelect_Update env [] (KeyMsg k) m of
        Inl p \<Rightarrow> None
      | Inr r \<Rightarrow> Some (MultiSelect_View (fst r)))"

definition filteredFive :: "string MultiSelect option" where
  "filteredFive =
     Option.bind (Option.bind (press envTyping ''/'' tenMixedField) (press envTyping ''a''))
       (press envTyping ''enter'')"

section \<open>Notions of the specification\<close>

text \<open>A row \<open>c\<close> is shown by a viewport when it lies between the offset and the height below it.\<close>

definition inView :: "int \<Rightarrow> Viewport \<Rightarrow> bool" where
  "inView c v = (YOffset v \<le> c \<and> c < YOffset v + Height v)"


section \<open>The selection limit\<close>

lemma card_dom_delete_le: "card (dom (m(i := None))) \<le> card (dom m)"
  by (simp add: card_Diff1_le)

lemma card_dom_insert_le: "card (dom (m(i \<mapsto> v))) \<le> Suc (card (dom m))"
  by (cases "finite (dom m)") (simp_all add: card_insert_if)

text \<open>
  C2, as the code has it. With a positive limit \<open>L\<close> and at most \<open>L\<close> entries selected
  before the call, at most \<open>L\<close> entries are selected after \<^verbatim>\<open>ToggleSelect\<close>; selecting
  an unselected index when the count equals \<open>L\<close> returns the limit error and leaves the
  state unchanged; toggling a selected index returns no error and removes the index.
\<close>

theorem ToggleSelect_within_limit:
  assumes "0 < limit m" and "numSelected m \<le> limit m"
  shows "numSelected (fst (ToggleSelect i opt m)) \<le> limit m
       \<and> (\<not> isSelected i m \<and> numSelected m = limit m \<longrightarrow>
            snd (ToggleSelect i opt m) \<noteq> None \<and> fst (ToggleSelect i opt m) = m)
       \<and> (isSelected i m \<longrightarrow>
            snd (ToggleSelect i opt m) = None
            \<and> MultiSelect.selected (fst (ToggleSelect i opt m))
                = (MultiSelect.selected m)(i := None))"
proof -
  have del: "int (card (dom ((MultiSelect.selected m)(i := None)))) \<le> limit m"
    using assms(2) card_dom_delete_le [of "MultiSelect.selected m" i]
    unfolding numSelected_def by linarith
  have ins: "\<not> limit m \<le> numSelected m \<Longrightarrow>
      int (card (dom ((MultiSelect.selected m)(i \<mapsto> opt)))) \<le> limit m"
    using card_dom_insert_le [of "MultiSelect.selected m" i opt]
    unfolding numSelected_def by linarith
  show ?thesis
    using assms del ins by (auto simp: ToggleSelect_def isSelected_def numSelected_def)
qed

theorem ToggleSelect_within_limit_witness:
  "0 < limit twoSelected \<and> numSelected twoSelected \<le> limit twoSelected
   \<and> \<not> isSelected 2 twoSelected \<and> numSelected twoSelected = limit twoSelected
   \<and> snd (ToggleSelect 2 optC twoSelected) \<noteq> None
   \<and> fst (ToggleSelect 2 optC twoSelected) = twoSelected
   \<and> isSelected 0 twoSelected
   \<and> snd (ToggleSelect 0 optA twoSelected) = None
   \<and> numSelected (fst (ToggleSelect 0 optA twoSelected)) \<le> limit twoSelected
   \<and> MultiSelect.selected (fst (ToggleSelect 0 optA twoSelected)) = [1 \<mapsto> optB]"
proof -
  have sel: "MultiSelect.selected twoSelected = [0 \<mapsto> optA, 1 \<mapsto> optB]"
    and lim: "limit twoSelected = 2"
    by (simp_all add: twoSelected_def ToggleSelect_def NewMultiSelect_def defaultLimit_def
        numSelected_def)
  have h1: "0 < limit twoSelected" by (simp add: lim)
  have n: "numSelected twoSelected = 2" by (simp add: numSelected_def sel)
  have h2: "numSelected twoSelected \<le> limit twoSelected" by (simp add: n lim)
  have s2: "\<not> isSelected 2 twoSelected" and s0: "isSelected 0 twoSelected"
    by (simp_all add: isSelected_def sel)
  have m: "[(0::int) \<mapsto> optA, 1 \<mapsto> optB](0 := None) = [1 \<mapsto> optB]"
    by (rule ext) simp
  show ?thesis
    using h1 h2 s2 s0 n lim sel m
      ToggleSelect_within_limit [OF h1 h2, of 2 optC]
      ToggleSelect_within_limit [OF h1 h2, of 0 optA]
    by simp
qed

text \<open>
  C2 as stated fails on a state with more entries than the limit, which a fresh field
  reaches when it is given more pre-selected options than the default limit: with four
  entries and limit 2, deselecting one leaves three.
\<close>

theorem ToggleSelect_over_limit_counterexample:
  "0 < limit fourPreselected
   \<and> snd (ToggleSelect 0 optA fourPreselected) = None
   \<and> numSelected (fst (ToggleSelect 0 optA fourPreselected)) = 3
   \<and> \<not> numSelected (fst (ToggleSelect 0 optA fourPreselected)) \<le> limit fourPreselected"
  by (simp add: fourPreselected_def initSelectedValues_def NewMultiSelect_def defaultLimit_def
      ToggleSelect_def numSelected_def setSelected_def optA_def optB_def optC_def optD_def)

text \<open>
  C3. With limit 0 the test \<^verbatim>\<open>len(m.selected) >= m.limit\<close> always holds, so selecting
  an unselected index returns the limit error even on an empty selection, and nothing
  is selected.
\<close>

theorem ToggleSelect_limit_zero_rejects:
  "ToggleSelect 0 optA (Limit 0 (NewMultiSelect 1))
     = (Limit 0 (NewMultiSelect 1), Some ''Limit reached. Unable to select another option.'')
   \<and> limit (Limit 0 (NewMultiSelect 1 :: string MultiSelect)) = 0
   \<and> numSelected (Limit 0 (NewMultiSelect 1 :: string MultiSelect)) = 0"
  by (simp add: ToggleSelect_def Limit_def NewMultiSelect_def numSelected_def)

text \<open>
  C10. A field returned by \<^verbatim>\<open>NewMultiSelect\<close> has limit 2: selecting two distinct
  indices succeeds, selecting a third returns the limit error and the selection stays
  the first two.
\<close>

theorem NewMultiSelect_default_limit:
  assumes "i \<noteq> j" and "k \<noteq> i" and "k \<noteq> j"
  shows "limit (NewMultiSelect nid :: 'v MultiSelect) = 2
     \<and> snd (ToggleSelect i a (NewMultiSelect nid :: 'v MultiSelect)) = None
     \<and> snd (ToggleSelect j b (fst (ToggleSelect i a (NewMultiSelect nid)))) = None
     \<and> snd (ToggleSelect k c (fst (ToggleSelect j b (fst (ToggleSelect i a (NewMultiSelect nid))))))
         \<noteq> None
     \<and> MultiSelect.selected
         (fst (ToggleSelect k c (fst (ToggleSelect j b (fst (ToggleSelect i a (NewMultiSelect nid)))))))
         = [i \<mapsto> a, j \<mapsto> b]"
  using assms
  by (simp add: ToggleSelect_def NewMultiSelect_def defaultLimit_def numSelected_def)

theorem NewMultiSelect_default_limit_witness:
  "snd (ToggleSelect 0 optA (NewMultiSelect 1)) = None
   \<and> snd (ToggleSelect 1 optB (fst (ToggleSelect 0 optA (NewMultiSelect 1)))) = None
   \<and> snd (ToggleSelect 2 optC (fst (ToggleSelect 1 optB (fst (ToggleSelect 0 optA (NewMultiSelect 1))))))
       \<noteq> None
   \<and> MultiSelect.selected
       (fst (ToggleSelect 2 optC (fst (ToggleSelect 1 optB (fst (ToggleSelect 0 optA (NewMultiSelect 1)))))))
       = [0 \<mapsto> optA, 1 \<mapsto> optB]"
  using NewMultiSelect_default_limit [of 0 1 2 1 optA optB optC] by simp

section \<open>Committing the selection\<close>

text \<open>
  C5. \<^verbatim>\<open>updateValue\<close> collects the values in the order in which the range over the
  Go map visits the keys, which Go does not fix. With options A and B selected at
  indices 0 and 1, a range that visits key 1 first binds the values of B and A in this
  order, not in the order of the indices, and a second commit whose range visits key 0
  first binds a different list although nothing changed in between.
\<close>

theorem updateValue_order_not_fixed:
  "range_order [1, 0] (MultiSelect.selected twoSelected)
   \<and> range_order [0, 1] (MultiSelect.selected (updateValue [1, 0] twoSelected))
   \<and> accessor (updateValue [1, 0] twoSelected) = [''b'', ''a'']
   \<and> accessor (updateValue [0, 1] (updateValue [1, 0] twoSelected)) = [''a'', ''b'']"
  by (auto simp add: range_order_def updateValue_def twoSelected_def ToggleSelect_def
      NewMultiSelect_def defaultLimit_def numSelected_def optA_def optB_def)

section \<open>Toggling all options\<close>

lemma toggleAll_keeps_selection: "MultiSelect.selected (toggleAll m) = MultiSelect.selected m"
  by (simp add: toggleAll_def Let_def)

lemma multiAB_eq:
  "multiAB = (NewMultiSelect 1)
     \<lparr>options := (newEval [])\<lparr>val := [optA, optB]\<rparr>, filteredOptions := [optA, optB],
      viewport := newViewport\<lparr>Height := 2\<rparr>, keymap := keyMapEx\<rparr>"
  by (simp add: multiAB_def Options_def WithKeyMap_def NewMultiSelect_def initSelectedValues_def
      optA_def optB_def updateViewportHeight_def lowestSelectedIndex_def numSelected_def Let_def)

text \<open>
  C4. With limit 0 and the two options A and B, none selected, the toggle-all key
  flags both options as selected, but the map of selected options, from which the
  committed value is computed, stays empty, and the committed value is the empty list.
\<close>

theorem ToggleAll_selects_nothing:
  "limit unlimitedAB = 0
   \<and> (\<exists>m' c. MultiSelect_Update envEx [] (KeyMsg ''ctrl+a'') unlimitedAB = Inr (m', c)
         \<and> map Option.selected (filteredOptions m') = [True, True]
         \<and> MultiSelect.selected m' = Map.empty
         \<and> accessor m' = [])"
  by (simp add: unlimitedAB_def multiAB_eq MultiSelect_Update_def updateKey_def Limit_def
      keyMapEx_def noKeyMap_def noBinding_def NewMultiSelect_def newEval_def newTextInput_def
      newViewport_def optA_def optB_def envEx_def updateViewportHeight_def Matches_def
      SetEnabled_def toggleAll_def toggleAtShared_def setSelected_def updateValue_def
      applyFilter_def defaultLimit_def Let_def upt_rec)

section \<open>Stale results of a deferred evaluation\<close>

lemma updateViewportHeight_keeps:
  "options (updateViewportHeight env m) = options m"
  "filteredOptions (updateViewportHeight env m) = filteredOptions m"
  "accessor (updateViewportHeight env m) = accessor m"
  "MultiSelect.id (updateViewportHeight env m) = MultiSelect.id m"
  "MultiSelect.selected (updateViewportHeight env m) = MultiSelect.selected m"
  "filtering (updateViewportHeight env m) = filtering m"
  by (simp_all add: updateViewportHeight_def)

text \<open>
  C7. When the recorded bindings hash of the options is \<open>h2\<close>, delivering the options
  computed for a hash \<open>h1\<close> returns without a panic. If \<open>h1\<close> differs from \<open>h2\<close> (or the
  message is for another field) the options with their cache, the filtered options,
  the selection and the bound value are what they were; so a delivery that changes
  any of them carries the recorded hash and the id of this field.
\<close>

theorem stale_options_discarded:
  assumes "bindingsHash (options m) = h2"
  shows "\<exists>m' c. MultiSelect_Update env ks (UpdateOptionsMsg i opts h1) m = Inr (m', c)
           \<and> (h1 \<noteq> h2 \<or> i \<noteq> MultiSelect.id m \<longrightarrow>
                 options m' = options m
                 \<and> filteredOptions m' = filteredOptions m
                 \<and> MultiSelect.selected m' = MultiSelect.selected m
                 \<and> accessor m' = accessor m)
           \<and> (options m' \<noteq> options m \<or> filteredOptions m' \<noteq> filteredOptions m
                \<or> accessor m' \<noteq> accessor m \<longrightarrow>
                 h1 = h2 \<and> i = MultiSelect.id m)"
proof -
  let ?m1 = "updateViewportHeight env m"
  let ?m = "if filtering ?m1 then ?m1\<lparr>filter := fst (filterUpdate env (UpdateOptionsMsg i opts h1) (filter ?m1))\<rparr> else ?m1"
  let ?c = "if filtering ?m1 then snd (filterUpdate env (UpdateOptionsMsg i opts h1) (filter ?m1)) else []"
  have keep: "options ?m = options m" "filteredOptions ?m = filteredOptions m"
    "MultiSelect.selected ?m = MultiSelect.selected m" "accessor ?m = accessor m"
    "MultiSelect.id ?m = MultiSelect.id m"
    by (simp_all add: updateViewportHeight_keeps)
  have run: "MultiSelect_Update env ks (UpdateOptionsMsg i opts h1) m
      = Inr (deliverOptions ks i opts h1 ?m, ?c)"
    by (simp add: MultiSelect_Update_def Let_def)
  show ?thesis
  proof (cases "h1 = h2 \<and> i = MultiSelect.id m")
    case True
    with run show ?thesis by simp
  next
    case False
    then have "deliverOptions ks i opts h1 ?m = ?m"
      using assms keep by (auto simp: deliverOptions_def)
    with run have "MultiSelect_Update env ks (UpdateOptionsMsg i opts h1) m = Inr (?m, ?c)"
      by simp
    moreover note keep
    ultimately show ?thesis by simp
  qed
qed

lemma awaiting_step:
  "h \<noteq> h' \<Longrightarrow>
   MultiSelect_Update (envEx\<lparr>optionsHash := h'\<rparr>) [] UpdateFieldMsg (awaiting h)
     = Inr (awaiting h', [OptionsCmd 1 h', SpinnerTick])"
  by (simp add: MultiSelect_Update_def updateField_def refreshTitle_def refreshDescription_def
      refreshOptions_def shouldUpdate_def loadFromCache_def awaiting_def NewMultiSelect_def
      newEval_def newViewport_def envEx_def updateViewportHeight_def Let_def)

theorem stale_options_discarded_witness:
  "MultiSelect_Update (envEx\<lparr>optionsHash := 1\<rparr>) [] UpdateFieldMsg withOptionsFunc
     = Inr (awaiting 1, [OptionsCmd 1 1, SpinnerTick])
   \<and> MultiSelect_Update (envEx\<lparr>optionsHash := 2\<rparr>) [] UpdateFieldMsg (awaiting 1)
     = Inr (awaiting 2, [OptionsCmd 1 2, SpinnerTick])
   \<and> bindingsHash (options (awaiting 2)) = 2
   \<and> (\<exists>m' c. MultiSelect_Update envEx [] (UpdateOptionsMsg 1 [optA] 1) (awaiting 2) = Inr (m', c)
         \<and> options m' = options (awaiting 2)
         \<and> filteredOptions m' = []
         \<and> accessor m' = [])
   \<and> (\<exists>m' c. MultiSelect_Update envEx [] (UpdateOptionsMsg 1 [optB] 2) (awaiting 2) = Inr (m', c)
         \<and> val (options m') = [optB]
         \<and> filteredOptions m' = [optB])"
proof -
  have first: "MultiSelect_Update (envEx\<lparr>optionsHash := 1\<rparr>) [] UpdateFieldMsg withOptionsFunc
     = Inr (awaiting 1, [OptionsCmd 1 1, SpinnerTick])"
    by (simp add: MultiSelect_Update_def updateField_def refreshTitle_def refreshDescription_def
      refreshOptions_def shouldUpdate_def loadFromCache_def awaiting_def withOptionsFunc_def
      NewMultiSelect_def newEval_def newViewport_def envEx_def updateViewportHeight_def Let_def)
  have second: "MultiSelect_Update (envEx\<lparr>optionsHash := 2\<rparr>) [] UpdateFieldMsg (awaiting 1)
     = Inr (awaiting 2, [OptionsCmd 1 2, SpinnerTick])"
    by (rule awaiting_step) simp
  have h: "bindingsHash (options (awaiting 2)) = 2"
    and e: "filteredOptions (awaiting 2) = []" "accessor (awaiting 2) = []"
           "MultiSelect.id (awaiting 2) = 1"
    by (simp_all add: awaiting_def NewMultiSelect_def newEval_def)
  have fresh: "\<exists>m' c. MultiSelect_Update envEx [] (UpdateOptionsMsg 1 [optB] 2) (awaiting 2) = Inr (m', c)
         \<and> val (options m') = [optB] \<and> filteredOptions m' = [optB]"
    by (simp add: MultiSelect_Update_def deliverOptions_def awaiting_def NewMultiSelect_def
        newEval_def newViewport_def envEx_def updateViewportHeight_def clampCursor_def
        updateValue_def showAll_def update_def Let_def)
  show ?thesis
    using first second h e
      stale_options_discarded [OF h, where env = envEx and ks = "[]" and i = 1
        and opts = "[optA]" and ?h1.0 = 1]
      fresh
    by auto
qed

section \<open>Cursor visibility\<close>

lemma go_div_two: "0 \<le> a \<Longrightarrow> go_div a 2 = a div 2"
  by (cases "a = 0") (simp_all add: go_div_def)

lemma up_inView:
  assumes "inView c v" "0 \<le> c" "c < n" "n \<le> int (length (lines v))"
  shows "inView (max (c - 1) 0)
           (if max (c - 1) 0 < YOffset v then SetYOffset (max (c - 1) 0) v else v)"
  using assms unfolding inView_def SetYOffset_def maxYOffset_def clamp_def
  by (auto simp: min_def max_def)

lemma down_inView:
  assumes "inView c v" "0 \<le> c" "c < n" "n \<le> int (length (lines v))"
  shows "inView (min (c + 1) (n - 1))
           (if min (c + 1) (n - 1) \<ge> YOffset v + Height v then LineDown 1 v else v)"
  using assms
  unfolding inView_def LineDown_def AtBottom_def SetYOffset_def maxYOffset_def clamp_def
  by (auto simp: min_def max_def)

lemma top_inView:
  assumes "inView c v" "0 \<le> c"
  shows "inView 0 (GotoTop v)"
  using assms unfolding inView_def GotoTop_def AtTop_def SetYOffset_def maxYOffset_def clamp_def
  by (auto simp: min_def max_def)

lemma bottom_inView:
  assumes "inView c v" "0 \<le> c" "c < n" "n \<le> int (length (lines v))"
    "int (length (lines v)) < n + Height v"
  shows "inView (n - 1) (GotoBottom v)"
  using assms unfolding inView_def GotoBottom_def SetYOffset_def maxYOffset_def clamp_def
  by (auto simp: min_def max_def)

lemma halfUp_inView:
  assumes "inView c v" "0 \<le> c" "c < n" "n \<le> int (length (lines v))"
  shows "inView (max (c - go_div (Height v) 2) 0) (HalfViewUp v)"
proof -
  have H: "0 < Height v" using assms(1) by (simp add: inView_def)
  have d: "go_div (Height v) 2 = Height v div 2" using H by (simp add: go_div_two)
  have d2: "0 \<le> Height v div 2" "Height v div 2 < Height v" using H by auto
  show ?thesis
    using assms d2
    unfolding d inView_def HalfViewUp_def AtTop_def SetYOffset_def maxYOffset_def clamp_def
    by (auto simp: min_def max_def)
qed

lemma halfDown_inView:
  assumes "inView c v" "0 \<le> c" "c < n" "n \<le> int (length (lines v))"
    "int (length (lines v)) < n + Height v"
  shows "inView (min (c + go_div (Height v) 2) (n - 1)) (HalfViewDown v)"
proof -
  have H: "0 < Height v" using assms(1) by (simp add: inView_def)
  have d: "go_div (Height v) 2 = Height v div 2" using H by (simp add: go_div_two)
  have d2: "0 \<le> Height v div 2" "Height v div 2 < Height v" using H by auto
  show ?thesis
    using assms d2
    unfolding d inView_def HalfViewDown_def AtBottom_def SetYOffset_def maxYOffset_def clamp_def
    by (auto simp: min_def max_def)
qed

text \<open>
  What the moves do keep: when the cursor is a valid index and is shown, and the content
  of the viewport has at least as many lines as there are filtered options and fewer
  than that number plus the height, the cursor is shown after the move. The second
  bound on the lines is what a filter breaks.
\<close>

lemma moveCursor_inView:
  assumes vis: "inView (cursor m) (viewport m)"
      and cur: "0 \<le> cursor m" "cursor m < int (length (filteredOptions m))"
      and lns: "int (length (filteredOptions m)) \<le> int (length (lines (viewport m)))"
               "int (length (lines (viewport m)))
                  < int (length (filteredOptions m)) + Height (viewport m)"
  shows "inView (cursor (moveCursor i m)) (viewport (moveCursor i m))"
  unfolding moveCursor_def Let_def
  using vis up_inView [OF vis cur lns(1)] down_inView [OF vis cur lns(1)]
    top_inView [OF vis cur(1)] bottom_inView [OF vis cur lns]
    halfUp_inView [OF vis cur lns(1)] halfDown_inView [OF vis cur lns]
  by (simp add: top_dir_def)

lemma fifthPreselected_state:
  "cursor fifthPreselected = 4
   \<and> viewport fifthPreselected = \<lparr>YOffset = 0, Height = 4, lines = map String tenOptions\<rparr>
   \<and> filteredOptions fifthPreselected = tenOptions"
  by (simp add: fifthPreselected_def MultiSelect_View_def startAtSelected_def SetContent_def
      optionsViewLines_def Height'_def Options_def tenOptions_def envEx_def
      NewMultiSelect_def initSelectedValues_def updateViewportHeight_def lowestSelectedIndex_def
      numSelected_def setSelected_def optA_def optB_def optC_def newViewport_def newEval_def
      defaultLimit_def Let_def)

lemma filteredFive_bottom:
  "\<exists>m. filteredFive = Some m
      \<and> Height (viewport m) \<le> int (length (filteredOptions m))
      \<and> filteredOptions m = [optLa, optLa, optLa, optLa, optLa]
      \<and> length (lines (viewport m)) = 10
      \<and> cursor m = 0 \<and> YOffset (viewport m) = 0 \<and> Height (viewport m) = 4
      \<and> cursor (moveCursor bottom_dir m) = 4
      \<and> YOffset (viewport (moveCursor bottom_dir m)) = 6
      \<and> Height (viewport (moveCursor bottom_dir m)) = 4
      \<and> \<not> (YOffset (viewport (moveCursor bottom_dir m)) \<le> cursor (moveCursor bottom_dir m))
      \<and> (\<exists>m' c. MultiSelect_Update envTyping [] (KeyMsg ''G'') m = Inr (m', c)
            \<and> cursor m' = 4 \<and> YOffset (viewport m') = 6 \<and> Height (viewport m') = 4)"
  by (simp add: filteredFive_def tenMixedField_def MultiSelect_View_def startAtSelected_def
      SetContent_def optionsViewLines_def Height'_def Options_def tenMixed_def envEx_def
      envTyping_def typing_def NewMultiSelect_def initSelectedValues_def updateViewportHeight_def
      lowestSelectedIndex_def numSelected_def optLa_def optLb_def newViewport_def newEval_def
      newTextInput_def defaultLimit_def Let_def WithKeyMap_def keyMapFilter_def noKeyMap_def
      noBinding_def press_def MultiSelect_Update_def updateKey_def Matches_def setFilter_def
      SetEnabled_def applyFilter_def filterFunc_def showAll_def String_def sublist_Cons_right
      prefix_Cons moveCursor_def top_dir_def bottom_dir_def up_dir_def down_dir_def
      halfUp_dir_def halfDown_dir_def GotoBottom_def SetYOffset_def maxYOffset_def clamp_def)

lemma fifthPreselected_down:
  "Height (viewport fifthPreselected) \<le> int (length (filteredOptions fifthPreselected))
   \<and> cursor (moveCursor down_dir fifthPreselected) = 5
   \<and> YOffset (viewport (moveCursor down_dir fifthPreselected)) = 1
   \<and> Height (viewport (moveCursor down_dir fifthPreselected)) = 4
   \<and> \<not> (cursor (moveCursor down_dir fifthPreselected)
           < YOffset (viewport (moveCursor down_dir fifthPreselected))
             + Height (viewport (moveCursor down_dir fifthPreselected)))"
  using fifthPreselected_state
  by (simp add: moveCursor_def Let_def down_dir_def top_dir_def up_dir_def LineDown_def
       AtBottom_def maxYOffset_def SetYOffset_def clamp_def tenOptions_def)

text \<open>
  C6. The claim fails on the code in two ways. First, \<^verbatim>\<open>optionsView\<close> pads the content
  of the viewport to one line per option of the full set, and the bottom move sets the
  offset to the bottom of that content: in a field of height 6 (four rows) with ten
  options of which the filter shows five, the cursor is at 0 and shown; after the
  bottom move, alone or through the key bound to it, the cursor is at 4, the last
  filtered option, while the viewport shows rows 6 to 9. Second, \<^verbatim>\<open>startAtSelected\<close>
  tests \<^verbatim>\<open>cursor > YOffset + Height\<close>, so a field of the same height whose fifth
  option is pre-selected starts with the cursor at 4 under rows 0 to 3; the move down
  puts the cursor at 5 and scrolls by one line, and the viewport shows rows 1 to 4.
\<close>

theorem moveCursor_hides_cursor:
  "(\<exists>m. filteredFive = Some m
      \<and> Height (viewport m) \<le> int (length (filteredOptions m))
      \<and> cursor m = 0 \<and> YOffset (viewport m) = 0 \<and> Height (viewport m) = 4
      \<and> cursor (moveCursor bottom_dir m) = 4
      \<and> YOffset (viewport (moveCursor bottom_dir m)) = 6
      \<and> Height (viewport (moveCursor bottom_dir m)) = 4
      \<and> \<not> (YOffset (viewport (moveCursor bottom_dir m)) \<le> cursor (moveCursor bottom_dir m))
      \<and> (\<exists>m' c. MultiSelect_Update envTyping [] (KeyMsg ''G'') m = Inr (m', c)
            \<and> cursor m' = 4 \<and> YOffset (viewport m') = 6 \<and> Height (viewport m') = 4))
   \<and> Height (viewport fifthPreselected) \<le> int (length (filteredOptions fifthPreselected))
   \<and> cursor (moveCursor down_dir fifthPreselected) = 5
   \<and> YOffset (viewport (moveCursor down_dir fifthPreselected)) = 1
   \<and> Height (viewport (moveCursor down_dir fifthPreselected)) = 4
   \<and> \<not> (cursor (moveCursor down_dir fifthPreselected)
           < YOffset (viewport (moveCursor down_dir fifthPreselected))
             + Height (viewport (moveCursor down_dir fifthPreselected)))"
  using filteredFive_bottom fifthPreselected_down by blast

section \<open>The accessible run\<close>

text \<open>
  C8. A select field whose validation rejects the value of option B, with option B
  highlighted: the next key of the interactive mode runs the validation, records the
  error and leaves the bound value alone, while the accessible run with answer 2 binds
  the value of B and never calls the validation. A multi-select field with options A
  and B: toggling A and pressing the next key binds the value of A once, while the
  accessible run with the answers 1 and 0 binds it twice.
\<close>

theorem accessible_run_differs:
  "Select_Update (KeyMsg ''enter'') selectAB
     = Inr (selectAB\<lparr>Select.err := Some ''b is not allowed''\<rparr>, [])
   \<and> Select_runAccessible [2] selectAB = Some (Inr (selectAB\<lparr>Select.value := ''b''\<rparr>))
   \<and> (\<exists>m1 c1 m2. MultiSelect_Update envEx [0] (KeyMsg ''x'') multiAB = Inr (m1, c1)
         \<and> MultiSelect_Update envEx [0] (KeyMsg ''enter'') m1 = Inr (m2, [NextField])
         \<and> accessor m2 = [''a''])
   \<and> (\<exists>m'. MultiSelect_runAccessible [1, 0] [[0]] multiAB = Some (Inr m')
         \<and> accessor m' = [''a'', ''a''])"
proof -
  have s: "Select_Update (KeyMsg ''enter'') selectAB
       = Inr (selectAB\<lparr>Select.err := Some ''b is not allowed''\<rparr>, [])
     \<and> Select_runAccessible [2] selectAB = Some (Inr (selectAB\<lparr>Select.value := ''b''\<rparr>))"
    by (simp add: Select_Update_def Select_runAccessible_def selectAB_def selectKeysEx_def
        Matches_def at_def notB_def optA_def optB_def)
  have i: "\<exists>m1 c1 m2. MultiSelect_Update envEx [0] (KeyMsg ''x'') multiAB = Inr (m1, c1)
         \<and> MultiSelect_Update envEx [0] (KeyMsg ''enter'') m1 = Inr (m2, [NextField])
         \<and> accessor m2 = [''a'']"
    by (simp add: multiAB_eq MultiSelect_Update_def updateKey_def NewMultiSelect_def newEval_def
        newViewport_def newTextInput_def keyMapEx_def noKeyMap_def noBinding_def Matches_def
        envEx_def updateViewportHeight_def ToggleSelect_def numSelected_def defaultLimit_def
        updateValue_def optA_def optB_def applyFilter_def validateValue_def Let_def)
  have a: "\<exists>m'. MultiSelect_runAccessible [1, 0] [[0]] multiAB = Some (Inr m')
         \<and> accessor m' = [''a'', ''a'']"
    by (simp add: multiAB_eq MultiSelect_runAccessible_def promptLoop.simps NewMultiSelect_def
        newEval_def ToggleSelect_def numSelected_def defaultLimit_def updateValue_def
        optA_def optB_def)
  from s i a show ?thesis by blast
qed

section \<open>Validation gating\<close>

text \<open>
  C1, as the code has it. The gate is in the field, at the key press. When the active
  field of a group is a select field, the pressed key is its next key (and none of the
  keys matched before it), and the validation rejects the value of the highlighted
  option, then the group's \<^verbatim>\<open>Update\<close> returns no command at all (neither the
  next-field nor the next-group signal), leaves the cursor where it is, and the active
  field holds the validation error.
\<close>

theorem select_withholds_advance:
  assumes cur: "at (fields' g) (Page (paginator g)) = Some s"
      and key: "Matches k [SelectKeyMap.Next (Select.keymap s)]"
               "\<not> Matches k [SelectKeyMap.Up (Select.keymap s)]"
               "\<not> Matches k [SelectKeyMap.Down (Select.keymap s)]"
               "\<not> Matches k [SelectKeyMap.Prev (Select.keymap s)]"
      and opt: "at (Select.options s) (Select.selected s) = Some opt"
      and bad: "Select.validate s (Value opt) = Some e"
  shows "\<exists>g'. Group_Update (SelectField H) (KeyMsg k) g = Inr (g', [])
           \<and> Page (paginator g') = Page (paginator g)
           \<and> at (fields' g') (Page (paginator g')) = Some (s\<lparr>Select.err := Some e\<rparr>)
           \<and> Errors (SelectField H) g' \<noteq> []"
proof -
  let ?s' = "s\<lparr>Select.err := Some e\<rparr>"
  have upd: "Select_Update (KeyMsg k) s = Inr (?s', [])"
    using key opt bad by (simp add: Select_Update_def Let_def)
  have rng: "0 \<le> Page (paginator g)" "nat (Page (paginator g)) < length (fields' g)"
    using cur by (auto simp: at_def split: if_splits)
  let ?g' = "setField (Page (paginator g)) ?s' g"
  have step: "Group_Update (SelectField H) (KeyMsg k) g = Inr (?g', [])"
    using cur upd by (simp add: Group_Update_def SelectField_def)
  have at': "at (fields' ?g') (Page (paginator ?g')) = Some ?s'"
    using rng by (simp add: setField_def at_def)
  have "?s' \<in> set (fields' ?g')"
    using rng by (simp add: setField_def set_update_memI)
  then have "\<exists>x\<in>set (fields' ?g'). fieldError (SelectField H) x \<noteq> None"
    by (intro bexI [of _ ?s']) (simp_all add: SelectField_def)
  then have "Errors (SelectField H) ?g' \<noteq> []"
    by (simp add: Errors_def List.map_filter_def filter_empty_conv)
  with step at' show ?thesis by (simp add: setField_def)
qed

theorem select_withholds_advance_witness:
  "at (fields' gateEx) (Page (paginator gateEx)) = Some selectAB
   \<and> Matches ''enter'' [SelectKeyMap.Next (Select.keymap selectAB)]
   \<and> at (Select.options selectAB) (Select.selected selectAB) = Some optB
   \<and> Select.validate selectAB (Value optB) = Some ''b is not allowed''
   \<and> (\<exists>g'. Group_Update oneRow (KeyMsg ''enter'') gateEx = Inr (g', [])
         \<and> Page (paginator g') = 0
         \<and> Errors oneRow g' \<noteq> [])"
proof -
  have cur: "at (fields' gateEx) (Page (paginator gateEx)) = Some selectAB"
    and p: "Page (paginator gateEx) = 0"
    by (simp_all add: gateEx_def NewGroup_def oneRow_def SelectField_def at_def)
  have key: "Matches ''enter'' [SelectKeyMap.Next (Select.keymap selectAB)]"
    "\<not> Matches ''enter'' [SelectKeyMap.Up (Select.keymap selectAB)]"
    "\<not> Matches ''enter'' [SelectKeyMap.Down (Select.keymap selectAB)]"
    "\<not> Matches ''enter'' [SelectKeyMap.Prev (Select.keymap selectAB)]"
    by (simp_all add: selectAB_def selectKeysEx_def Matches_def)
  have opt: "at (Select.options selectAB) (Select.selected selectAB) = Some optB"
    by (simp add: selectAB_def at_def)
  have bad: "Select.validate selectAB (Value optB) = Some ''b is not allowed''"
    by (simp add: selectAB_def notB_def optB_def)
  show ?thesis
    using cur key(1) opt bad p
      select_withholds_advance [OF cur key opt bad, of "\<lambda>_. 1"]
    by (auto simp: oneRow_def)
qed

text \<open>
  C1 as stated fails: the group's \<^verbatim>\<open>Update\<close> does not look at the errors of its
  fields. In a group of two select fields whose second field holds a validation error,
  \<^verbatim>\<open>nextFieldMsg\<close> at the first field moves the cursor to the second, and
  \<^verbatim>\<open>nextFieldMsg\<close> at the second (the last) field emits the next-group signal.
\<close>

theorem group_advance_ignores_errors_counterexample:
  "Errors oneRow (groupEx 0) \<noteq> []
   \<and> (\<exists>g' c. Group_Update oneRow NextFieldMsg (groupEx 0) = Inr (g', c)
         \<and> Page (paginator g') = 1 \<and> Page (paginator g') \<noteq> Page (paginator (groupEx 0)))
   \<and> Errors oneRow (groupEx 1) \<noteq> []
   \<and> (\<exists>g' c. Group_Update oneRow NextFieldMsg (groupEx 1) = Inr (g', c) \<and> NextGroup \<in> set c)"
  by (simp add: groupEx_def NewGroup_def oneRow_def SelectField_def Errors_def
      List.map_filter_simps selectOk_def selectInvalid_def Group_Update_def at_def
      Select_Update_def setField_def nextFieldStep_def setCurrent_def Select_Blur_def
      Select_Focus_def clamp_def scrollTo_def sumHeights.simps [of _ 0] sumHeights.simps [of _ 1]
      SetYOffset_def maxYOffset_def required_def Let_def)

section \<open>The scroll offset after navigation\<close>












end
